theory Spec2Isabelle
  imports Main "HOL-Library.Sublist"
begin

section \<open>JavaScript string operations used by the services\<close>

text \<open>
  Strings are modelled as \<^typ>\<open>string\<close>: a character is a code unit below 256, read
  as in Latin-1 (\<open>CHR 0xA0\<close> is the no-break space, \<open>CHR 0xC0\<close> is a capital A with
  grave). Strings with a code unit from 256 on are outside the model; on the strings of
  the model the operations below are the JavaScript ones.
\<close>

text \<open>\<^verbatim>\<open>s.startsWith(p)\<close>\<close>

fun startsWith :: "string \<Rightarrow> string \<Rightarrow> bool" where
  "startsWith s [] = True"
| "startsWith [] (p # ps) = False"
| "startsWith (c # cs) (p # ps) = (c = p \<and> startsWith cs ps)"

text \<open>\<^verbatim>\<open>s.includes(sub)\<close>: \<open>sub\<close> occurs somewhere in \<open>s\<close>.\<close>

fun str_includes :: "string \<Rightarrow> string \<Rightarrow> bool" where
  "str_includes [] sub = (sub = [])"
| "str_includes (c # cs) sub = (startsWith (c # cs) sub \<or> str_includes cs sub)"

text \<open>
  \<^verbatim>\<open>s.replace(pat, rep)\<close> with a string pattern: only the first occurrence is replaced.
  The services call it with the replacement \<^verbatim>\<open>''\<close> only, so the replacement is literal.
\<close>

fun str_replace :: "string \<Rightarrow> string \<Rightarrow> string \<Rightarrow> string" where
  "str_replace [] pat rep = (if pat = [] then rep else [])"
| "str_replace (c # cs) pat rep =
     (if startsWith (c # cs) pat then rep @ drop (length pat) (c # cs)
      else c # str_replace cs pat rep)"

text \<open>
  \<^verbatim>\<open>s.toLowerCase()\<close>: the letters \<open>A\<close> to \<open>Z\<close> and the Latin-1 capitals \<open>0xC0\<close> to
  \<open>0xDE\<close> (without the multiplication sign \<open>0xD7\<close>) have a lower-case form, 32 places
  further on; every other character below 256 is its own lower-case form.
\<close>

definition upper_latin1 :: string where
  "upper_latin1 =
     [CHR 0xC0, CHR 0xC1, CHR 0xC2, CHR 0xC3, CHR 0xC4, CHR 0xC5, CHR 0xC6, CHR 0xC7,
      CHR 0xC8, CHR 0xC9, CHR 0xCA, CHR 0xCB, CHR 0xCC, CHR 0xCD, CHR 0xCE, CHR 0xCF,
      CHR 0xD0, CHR 0xD1, CHR 0xD2, CHR 0xD3, CHR 0xD4, CHR 0xD5, CHR 0xD6,
      CHR 0xD8, CHR 0xD9, CHR 0xDA, CHR 0xDB, CHR 0xDC, CHR 0xDD, CHR 0xDE]"

definition lower_latin1 :: string where
  "lower_latin1 =
     [CHR 0xE0, CHR 0xE1, CHR 0xE2, CHR 0xE3, CHR 0xE4, CHR 0xE5, CHR 0xE6, CHR 0xE7,
      CHR 0xE8, CHR 0xE9, CHR 0xEA, CHR 0xEB, CHR 0xEC, CHR 0xED, CHR 0xEE, CHR 0xEF,
      CHR 0xF0, CHR 0xF1, CHR 0xF2, CHR 0xF3, CHR 0xF4, CHR 0xF5, CHR 0xF6,
      CHR 0xF8, CHR 0xF9, CHR 0xFA, CHR 0xFB, CHR 0xFC, CHR 0xFD, CHR 0xFE]"

definition lower_char :: "char \<Rightarrow> char" where
  "lower_char c =
     (case map_of (zip (''ABCDEFGHIJKLMNOPQRSTUVWXYZ'' @ upper_latin1)
                       (''abcdefghijklmnopqrstuvwxyz'' @ lower_latin1)) c of
        Some l \<Rightarrow> l
      | None \<Rightarrow> c)"

definition toLowerCase :: "string \<Rightarrow> string" where
  "toLowerCase s = map lower_char s"

text \<open>
  \<^verbatim>\<open>s.trim()\<close>: white space and line terminators are removed at both ends. Below 256
  these are tab, LF, VT, FF, CR, space and the no-break space.
\<close>

definition is_space :: "char \<Rightarrow> bool" where
  "is_space c = (of_char c \<in> {9, 10, 11, 12, 13, 32, 160 :: nat})"

definition trim :: "string \<Rightarrow> string" where
  "trim s = rev (dropWhile is_space (rev (dropWhile is_space s)))"

text \<open>\<^verbatim>\<open>s.split('/').pop()\<close>: the text after the last slash (all of \<open>s\<close> without a slash).\<close>

definition last_segment :: "string \<Rightarrow> string" where
  "last_segment s = rev (takeWhile (\<lambda>c. c \<noteq> CHR ''/'') (rev s))"

text \<open>JavaScript truthiness of an optional string: \<^verbatim>\<open>undefined\<close> and \<^verbatim>\<open>''\<close> are falsy.\<close>

fun truthy :: "string option \<Rightarrow> bool" where
  "truthy None = False"
| "truthy (Some s) = (s \<noteq> [])"

section \<open>The simple-git handle\<close>

text \<open>
  An asynchronous method reads and changes a state of type \<open>'s\<close> and either resolves with
  a value (\<open>Inr\<close>) or rejects with an error, kept as its \<^verbatim>\<open>message\<close> (\<open>Inl\<close>).
  \<^verbatim>\<open>this.git\<close> is the handle of the external tool: its calls act on the working copy,
  a state of type \<open>'w\<close>, and reject with the tool's failure text.
\<close>

type_synonym ('w, 'a) async = "'w \<Rightarrow> (string + 'a) \<times> 'w"

text \<open>What \<^verbatim>\<open>branchLocal()\<close> and \<^verbatim>\<open>branch(['-r'])\<close> resolve with.\<close>

record branch_summary =
  bs_all :: "string list"
  bs_current :: string

text \<open>An entry of \<^verbatim>\<open>log.all\<close>; an absent or empty field is the empty string.\<close>

record raw_commit =
  rc_hash :: string
  rc_message :: string
  rc_author_name :: string
  rc_author :: string
  rc_author_email :: string
  rc_date :: string
  rc_refs :: string

record log_result =
  lr_all :: "raw_commit list"
  lr_total :: nat

record commit_result =
  cr_commit :: string
  cr_branch :: string
  cr_summary :: string

record 'w simple_git =
  sg_fetch :: "string list \<Rightarrow> ('w, unit) async"
  sg_branchLocal :: "('w, branch_summary) async"
  sg_branch :: "string list \<Rightarrow> ('w, branch_summary) async"
  sg_deleteLocalBranch :: "string \<Rightarrow> bool \<Rightarrow> ('w, unit) async"
  sg_log :: "int \<Rightarrow> ('w, log_result) async"
  sg_diff :: "string list \<Rightarrow> ('w, string) async"
  sg_merge :: "string list \<Rightarrow> ('w, string) async"
  sg_rebase :: "string list \<Rightarrow> ('w, string) async"
  sg_reset :: "string list \<Rightarrow> ('w, unit) async"
  sg_commit :: "string \<Rightarrow> ('w, commit_result) async"

subsection \<open>Asynchronous control flow\<close>

text \<open>
  \<^verbatim>\<open>const v = await m; k(v)\<close>: a rejection of \<open>m\<close> leaves the function at once,
  \<^verbatim>\<open>return v\<close> resolves, \<^verbatim>\<open>throw e\<close> rejects, and
  \<^verbatim>\<open>try { m } catch (error) { h(error) }\<close> hands a rejection of \<open>m\<close> to \<open>h\<close>.
\<close>

definition await :: "('w, 'a) async \<Rightarrow> ('a \<Rightarrow> ('w, 'b) async) \<Rightarrow> ('w, 'b) async" where
  "await m k w = (case m w of (Inl e, w') \<Rightarrow> (Inl e, w') | (Inr v, w') \<Rightarrow> k v w')"

definition resolve :: "'a \<Rightarrow> ('w, 'a) async" where
  "resolve v w = (Inr v, w)"

definition throw :: "string \<Rightarrow> ('w, 'a) async" where
  "throw e w = (Inl e, w)"

definition try_catch :: "('w, 'a) async \<Rightarrow> (string \<Rightarrow> ('w, 'a) async) \<Rightarrow> ('w, 'a) async" where
  "try_catch m h w = (case m w of (Inl e, w') \<Rightarrow> h e w' | (Inr v, w') \<Rightarrow> (Inr v, w'))"

section \<open>GitService\<close>

subsection \<open>getStaleBranches\<close>

record stale_branch =
  sb_name :: string
  sb_remoteExists :: bool

record stale_return =
  staleBranches :: "stale_branch list"
  currentBranch :: string

definition remoteBranchNames :: "string \<Rightarrow> string list \<Rightarrow> string set" where
  "remoteBranchNames remote names =
     set (map (\<lambda>name. str_replace name (remote @ ''/'') [])
            (filter (\<lambda>name. startsWith name (remote @ ''/'')) names))"

definition protectedBranches :: "string list" where
  "protectedBranches = [''main'', ''master'', ''develop'', ''dev'']"

text \<open>The \<^verbatim>\<open>for\<close> loop over \<^verbatim>\<open>localBranches.all\<close>; \<open>acc\<close> is \<^verbatim>\<open>staleBranches\<close>.\<close>

fun stale_loop :: "string \<Rightarrow> string set \<Rightarrow> string list \<Rightarrow> stale_branch list \<Rightarrow> stale_branch list" where
  "stale_loop current remoteNames [] acc = acc"
| "stale_loop current remoteNames (branchName # rest) acc =
     (if branchName = current then stale_loop current remoteNames rest acc
      else if toLowerCase branchName \<in> set protectedBranches
        then stale_loop current remoteNames rest acc
      else if branchName \<notin> remoteNames
        then stale_loop current remoteNames rest
               (acc @ [\<lparr>sb_name = branchName, sb_remoteExists = False\<rparr>])
      else stale_loop current remoteNames rest acc)"

text \<open>The parameter \<open>remote\<close> is the value after the default \<^verbatim>\<open>'origin'\<close> has been applied.\<close>

definition getStaleBranches :: "'w simple_git \<Rightarrow> string \<Rightarrow> ('w, stale_return) async" where
  "getStaleBranches git remote =
     await (sg_fetch git [remote, ''--prune'']) (\<lambda>_.
     await (sg_branchLocal git) (\<lambda>localBranches.
     await (sg_branch git [''-r'']) (\<lambda>remoteBranches.
       resolve \<lparr>staleBranches =
                  stale_loop (bs_current localBranches)
                    (remoteBranchNames remote (bs_all remoteBranches))
                    (bs_all localBranches) [],
                currentBranch = bs_current localBranches\<rparr>)))"

subsection \<open>deleteBranches\<close>

record delete_result =
  dr_name :: string
  dr_success :: bool
  dr_error :: "string option"

text \<open>The \<^verbatim>\<open>for\<close> loop with its \<^verbatim>\<open>try/catch\<close> around each deletion.\<close>

fun deleteBranches_loop ::
  "'w simple_git \<Rightarrow> bool \<Rightarrow> string list \<Rightarrow> delete_result list \<Rightarrow> 'w \<Rightarrow> delete_result list \<times> 'w" where
  "deleteBranches_loop git force [] results w = (results, w)"
| "deleteBranches_loop git force (name # rest) results w =
     (case sg_deleteLocalBranch git name force w of
        (Inr _, w') \<Rightarrow>
          deleteBranches_loop git force rest
            (results @ [\<lparr>dr_name = name, dr_success = True, dr_error = None\<rparr>]) w'
      | (Inl msg, w') \<Rightarrow>
          deleteBranches_loop git force rest
            (results @ [\<lparr>dr_name = name, dr_success = False, dr_error = Some msg\<rparr>]) w')"

definition deleteBranches :: "'w simple_git \<Rightarrow> string list \<Rightarrow> bool \<Rightarrow> ('w, delete_result list) async" where
  "deleteBranches git branchNames force w =
     (case deleteBranches_loop git force branchNames [] w of
        (results, w') \<Rightarrow> (Inr results, w'))"

subsection \<open>getLog\<close>

text \<open>A normalised commit; \<^verbatim>\<open>refs\<close> is the tool's text, or \<^verbatim>\<open>[]\<close> when that is empty.\<close>

datatype refs_value = RefsText string | RefsEmpty

record commit_record =
  c_hash :: string
  c_shortHash :: string
  c_message :: string
  c_author :: string
  c_email :: string
  c_date :: string
  c_refs :: refs_value

record log_return =
  commits :: "commit_record list"
  total :: nat

text \<open>\<^verbatim>\<open>a || b\<close> on strings.\<close>

definition str_or :: "string \<Rightarrow> string \<Rightarrow> string" where
  "str_or a b = (if a \<noteq> [] then a else b)"

text \<open>
  The function mapped over \<^verbatim>\<open>log.all\<close>; \<open>now\<close> is \<^verbatim>\<open>new Date().toISOString()\<close>.
\<close>

definition normalize_commit :: "string \<Rightarrow> raw_commit \<Rightarrow> commit_record" where
  "normalize_commit now commit =
     \<lparr>c_hash = str_or (rc_hash commit) [],
      c_shortHash = (if rc_hash commit \<noteq> [] then take 7 (rc_hash commit) else []),
      c_message = str_or (rc_message commit) [],
      c_author = str_or (rc_author_name commit) (str_or (rc_author commit) ''Unknown''),
      c_email = str_or (rc_author_email commit) [],
      c_date = str_or (rc_date commit) now,
      c_refs = (if rc_refs commit \<noteq> [] then RefsText (rc_refs commit) else RefsEmpty)\<rparr>"

text \<open>\<^verbatim>\<open>options.maxCount || 100\<close>: an absent count and the count 0 are falsy.\<close>

definition maxCount_or_default :: "int option \<Rightarrow> int" where
  "maxCount_or_default maxCount =
     (case maxCount of None \<Rightarrow> 100 | Some n \<Rightarrow> if n = 0 then 100 else n)"

text \<open>
  The \<^verbatim>\<open>catch\<close> block of \<^verbatim>\<open>getLog\<close> also writes the error to the console; the console
  is not part of the state.
\<close>

definition getLog :: "'w simple_git \<Rightarrow> int option \<Rightarrow> string \<Rightarrow> ('w, log_return) async" where
  "getLog git maxCount now =
     try_catch
       (await (sg_log git (maxCount_or_default maxCount)) (\<lambda>log.
          resolve \<lparr>commits = map (normalize_commit now) (lr_all log), total = lr_total log\<rparr>))
       (\<lambda>error. resolve \<lparr>commits = [], total = 0\<rparr>)"

subsection \<open>getDiff\<close>

record diff_options =
  opt_cached :: bool
  opt_file :: "string option"
  opt_commit1 :: "string option"
  opt_commit2 :: "string option"

text \<open>
  The arguments handed to \<^verbatim>\<open>this.git.diff\<close> by the \<^verbatim>\<open>if/else if\<close> chain; the plain
  call \<^verbatim>\<open>this.git.diff()\<close> has none.
\<close>

definition diff_args :: "diff_options \<Rightarrow> string list" where
  "diff_args options =
     (if opt_cached options then [''--cached'']
      else if truthy (opt_file options) then [the (opt_file options)]
      else if truthy (opt_commit1 options) \<and> truthy (opt_commit2 options)
        then [the (opt_commit1 options), the (opt_commit2 options)]
      else [])"

definition getDiff :: "'w simple_git \<Rightarrow> diff_options \<Rightarrow> ('w, string) async" where
  "getDiff git options = await (sg_diff git (diff_args options)) (\<lambda>diff. resolve diff)"

subsection \<open>merge and rebase\<close>

record merge_options =
  noFF :: bool
  squash :: bool

text \<open>
  The object returned by \<^verbatim>\<open>merge\<close> and \<^verbatim>\<open>rebase\<close>: \<^verbatim>\<open>{success: true, result}\<close> or
  \<^verbatim>\<open>{success: false, conflict: true, message}\<close>; an absent property is \<open>None\<close>.
\<close>

record merge_return =
  mr_success :: bool
  mr_conflict :: "bool option"
  mr_message :: "string option"
  mr_result :: "string option"

definition mergeOptions :: "merge_options \<Rightarrow> string list" where
  "mergeOptions opts =
     (if noFF opts then [''--no-ff''] else []) @ (if squash opts then [''--squash''] else [])"

definition merge :: "'w simple_git \<Rightarrow> string \<Rightarrow> merge_options \<Rightarrow> ('w, merge_return) async" where
  "merge git branch opts =
     try_catch
       (await (sg_merge git (branch # mergeOptions opts)) (\<lambda>result.
          resolve \<lparr>mr_success = True, mr_conflict = None, mr_message = None,
                   mr_result = Some result\<rparr>))
       (\<lambda>error.
          if str_includes error ''CONFLICT''
          then resolve \<lparr>mr_success = False, mr_conflict = Some True, mr_message = Some error,
                        mr_result = None\<rparr>
          else throw error)"

definition rebase :: "'w simple_git \<Rightarrow> string \<Rightarrow> ('w, merge_return) async" where
  "rebase git branch =
     try_catch
       (await (sg_rebase git [branch]) (\<lambda>result.
          resolve \<lparr>mr_success = True, mr_conflict = None, mr_message = None,
                   mr_result = Some result\<rparr>))
       (\<lambda>error.
          if str_includes error ''CONFLICT''
          then resolve \<lparr>mr_success = False, mr_conflict = Some True, mr_message = Some error,
                        mr_result = None\<rparr>
          else throw error)"

subsection \<open>commit, reset and resetTo\<close>

record commit_return =
  cm_success :: bool
  cm_commit :: string
  cm_branch :: string
  cm_summary :: string

definition commit :: "'w simple_git \<Rightarrow> string \<Rightarrow> ('w, commit_return) async" where
  "commit git message =
     await (sg_commit git message) (\<lambda>result.
       resolve \<lparr>cm_success = True, cm_commit = cr_commit result, cm_branch = cr_branch result,
                cm_summary = cr_summary result\<rparr>)"

text \<open>\<^verbatim>\<open>reset(files)\<close> unstages; it resolves with \<^verbatim>\<open>{success: true}\<close>.\<close>

definition reset :: "'w simple_git \<Rightarrow> string list option \<Rightarrow> ('w, bool) async" where
  "reset git files =
     (case files of
        Some (f # fs) \<Rightarrow> await (sg_reset git ([''HEAD'', ''--''] @ (f # fs))) (\<lambda>_. resolve True)
      | _ \<Rightarrow> await (sg_reset git [''HEAD'']) (\<lambda>_. resolve True))"

text \<open>
  The object \<^verbatim>\<open>modes\<close> of \<^verbatim>\<open>resetTo\<close>: a key other than the three has no array as its value
  (\<^verbatim>\<open>undefined\<close>, or a member of \<^verbatim>\<open>Object.prototype\<close>), and spreading it raises a
  \<^verbatim>\<open>TypeError\<close>.
\<close>

definition modes :: "string \<Rightarrow> string list option" where
  "modes mode =
     (if mode = ''soft'' then Some [''--soft'']
      else if mode = ''mixed'' then Some [''--mixed'']
      else if mode = ''hard'' then Some [''--hard'']
      else None)"

definition not_iterable :: string where
  "not_iterable = ''modes[mode] is not iterable''"

text \<open>\<^verbatim>\<open>resetTo(commit, mode = 'soft')\<close>: \<open>None\<close> is an omitted second argument.\<close>

definition resetTo :: "'w simple_git \<Rightarrow> string \<Rightarrow> string option \<Rightarrow> ('w, bool) async" where
  "resetTo git commit_ref mode =
     (case modes (case mode of None \<Rightarrow> ''soft'' | Some m \<Rightarrow> m) of
        None \<Rightarrow> throw not_iterable
      | Some flags \<Rightarrow> await (sg_reset git (flags @ [commit_ref])) (\<lambda>_. resolve True))"

section \<open>RepoService\<close>

record repo =
  repo_id :: string
  repo_path :: string
  repo_name :: string
  repo_addedAt :: string
  repo_cloneUrl :: "string option"

text \<open>
  The file \<^verbatim>\<open>data/repos.json\<close>: absent, present but not readable as JSON, or a document
  whose \<^verbatim>\<open>repos\<close> property may be missing.
\<close>

datatype config_file = NoFile | Unreadable | Doc "repo list option"

text \<open>
  What the file system and the tool answer during one call: whether \<^verbatim>\<open>fs.ensureDir\<close> and
  \<^verbatim>\<open>fs.writeJson\<close> fail (with which message), whether a path names an existing
  directory, what \<^verbatim>\<open>git rev-parse --git-dir\<close> reports in a directory (\<open>None\<close>: it found
  a repository, otherwise its failure text), and whether \<^verbatim>\<open>git clone\<close> fails.
\<close>

record fs_env =
  ensureDir_error :: "string option"
  writeJson_error :: "string option"
  dir_exists :: "string \<Rightarrow> bool"
  revparse_error :: "string \<Rightarrow> string option"
  clone_error :: "string \<Rightarrow> string \<Rightarrow> string option"

text \<open>The singleton: \<^verbatim>\<open>this.repos\<close>, \<^verbatim>\<open>this.initialized\<close>, and the durable store it writes.\<close>

record repo_service =
  repos :: "repo list"
  initialized :: bool
  store :: config_file

text \<open>
  The option \<^verbatim>\<open>errors: function(error, method) { return; }\<close> of the handle that
  \<^verbatim>\<open>isValidRepo\<close> builds. The handle asks this function which error a finished command
  has, and rejects the call only when it names one; the function names none.
\<close>

definition validation_errors :: "string option \<Rightarrow> string option" where
  "validation_errors error = None"

text \<open>
  \<^verbatim>\<open>isValidRepo(path)\<close>: an empty path is refused; \<^verbatim>\<open>simpleGit(path, ...)\<close> throws for
  a path that is no existing directory, which the \<^verbatim>\<open>catch\<close> block turns into
  \<^verbatim>\<open>false\<close>; then \<^verbatim>\<open>revparse\<close> runs, and the call rejects only with an error that
  \<^verbatim>\<open>errors\<close> names.
\<close>

definition isValidRepo :: "fs_env \<Rightarrow> string \<Rightarrow> bool" where
  "isValidRepo env path =
     (if path = [] then False
      else if \<not> dir_exists env path then False
      else (case validation_errors (revparse_error env path) of
              None \<Rightarrow> True
            | Some e \<Rightarrow> False))"

definition save :: "fs_env \<Rightarrow> (repo_service, unit) async" where
  "save env st =
     (case writeJson_error env of
        Some e \<Rightarrow> (Inl e, st)
      | None \<Rightarrow> (Inr (), st\<lparr>store := Doc (Some (repos st))\<rparr>))"

text \<open>
  \<^verbatim>\<open>_doInit\<close>: every failure inside its \<^verbatim>\<open>try\<close> ends in the \<^verbatim>\<open>catch\<close> block, which
  empties the list and marks the service initialised.
\<close>

definition doInit :: "fs_env \<Rightarrow> repo_service \<Rightarrow> repo_service" where
  "doInit env st =
     (case ensureDir_error env of
        Some e \<Rightarrow> st\<lparr>repos := [], initialized := True\<rparr>
      | None \<Rightarrow>
         (case store st of
            Doc d \<Rightarrow> st\<lparr>repos := (case d of Some rs \<Rightarrow> rs | None \<Rightarrow> []), initialized := True\<rparr>
          | Unreadable \<Rightarrow> st\<lparr>repos := [], initialized := True\<rparr>
          | NoFile \<Rightarrow>
             (case save env (st\<lparr>repos := []\<rparr>) of
                (Inr _, st') \<Rightarrow> st'\<lparr>initialized := True\<rparr>
              | (Inl e, st') \<Rightarrow> st'\<lparr>repos := [], initialized := True\<rparr>)))"

definition init :: "fs_env \<Rightarrow> repo_service \<Rightarrow> repo_service" where
  "init env st = (if initialized st then st else doInit env st)"


definition getById :: "fs_env \<Rightarrow> string \<Rightarrow> (repo_service, repo option) async" where
  "getById env ident st0 =
     (let st = init env st0
      in (Inr (List.find (\<lambda>r. repo_id r = ident) (repos st)), st))"

text \<open>\<^verbatim>\<open>name || path.split('/').pop()\<close>\<close>

definition name_or_segment :: "string option \<Rightarrow> string \<Rightarrow> string" where
  "name_or_segment name path = (if truthy name then the name else last_segment path)"

text \<open>
  \<^verbatim>\<open>add(path, name)\<close>; \<open>new_id\<close> is the value of \<^verbatim>\<open>uuidv4()\<close> and \<open>now\<close> that of
  \<^verbatim>\<open>new Date().toISOString()\<close>.
\<close>

definition RepoService_add ::
  "fs_env \<Rightarrow> string \<Rightarrow> string option \<Rightarrow> string \<Rightarrow> string \<Rightarrow> (repo_service, repo) async" where
  "RepoService_add env path name new_id now st0 =
     (let st = init env st0;
          normalizedPath = trim path
      in if \<not> isValidRepo env normalizedPath then (Inl ''Not a valid git repository'', st)
         else if List.find (\<lambda>r. repo_path r = normalizedPath) (repos st) \<noteq> None
           then (Inl ''Repository already added'', st)
         else
           (let new_repo = \<lparr>repo_id = new_id, repo_path = normalizedPath,
                            repo_name = name_or_segment name normalizedPath,
                            repo_addedAt = now, repo_cloneUrl = None\<rparr>
            in await (save env) (\<lambda>_. resolve new_repo) (st\<lparr>repos := repos st @ [new_repo]\<rparr>)))"

text \<open>\<^verbatim>\<open>splice(index, 1)\<close> at the index found by \<^verbatim>\<open>findIndex\<close>.\<close>

fun remove_first :: "('a \<Rightarrow> bool) \<Rightarrow> 'a list \<Rightarrow> 'a list" where
  "remove_first P [] = []"
| "remove_first P (x # xs) = (if P x then xs else x # remove_first P xs)"

definition RepoService_remove :: "fs_env \<Rightarrow> string \<Rightarrow> (repo_service, bool) async" where
  "RepoService_remove env ident st0 =
     (let st = init env st0
      in if List.find (\<lambda>r. repo_id r = ident) (repos st) = None
         then (Inl ''Repository not found'', st)
         else await (save env) (\<lambda>_. resolve True)
                (st\<lparr>repos := remove_first (\<lambda>r. repo_id r = ident) (repos st)\<rparr>))"

text \<open>
  \<^verbatim>\<open>find\<close> returns the first matching object of the array itself, so an assignment to one
  of its properties changes that element of \<^verbatim>\<open>this.repos\<close>.
\<close>

fun assign_first :: "('a \<Rightarrow> bool) \<Rightarrow> ('a \<Rightarrow> 'a) \<Rightarrow> 'a list \<Rightarrow> 'a list" where
  "assign_first P f [] = []"
| "assign_first P f (x # xs) = (if P x then f x # xs else x # assign_first P f xs)"

record updates =
  upd_name :: "string option"
  upd_path :: "string option"

definition RepoService_update :: "fs_env \<Rightarrow> string \<Rightarrow> updates \<Rightarrow> (repo_service, repo) async" where
  "RepoService_update env ident upd st0 =
     (let st = init env st0
      in case List.find (\<lambda>r. repo_id r = ident) (repos st) of
           None \<Rightarrow> (Inl ''Repository not found'', st)
         | Some found \<Rightarrow>
            (let set_name = (\<lambda>r. if truthy (upd_name upd) then r\<lparr>repo_name := the (upd_name upd)\<rparr> else r);
                 st1 = st\<lparr>repos := assign_first (\<lambda>r. repo_id r = ident) set_name (repos st)\<rparr>
             in if truthy (upd_path upd)
                then
                  (if \<not> isValidRepo env (the (upd_path upd))
                   then (Inl ''Not a valid git repository'', st1)
                   else
                     (let set_path = (\<lambda>r. r\<lparr>repo_path := the (upd_path upd)\<rparr>)
                      in await (save env) (\<lambda>_. resolve (set_path (set_name found)))
                           (st1\<lparr>repos := assign_first (\<lambda>r. repo_id r = ident) set_path (repos st1)\<rparr>)))
                else await (save env) (\<lambda>_. resolve (set_name found)) st1))"

definition RepoService_clone ::
  "fs_env \<Rightarrow> string \<Rightarrow> string \<Rightarrow> string option \<Rightarrow> string \<Rightarrow> string \<Rightarrow> (repo_service, repo) async" where
  "RepoService_clone env url targetPath name new_id now st0 =
     (let st = init env st0
      in case clone_error env url targetPath of
           Some e \<Rightarrow> (Inl e, st)
         | None \<Rightarrow>
            (let new_repo = \<lparr>repo_id = new_id, repo_path = targetPath,
                             repo_name = name_or_segment name targetPath,
                             repo_addedAt = now, repo_cloneUrl = Some url\<rparr>
             in await (save env) (\<lambda>_. resolve new_repo) (st\<lparr>repos := repos st @ [new_repo]\<rparr>)))"

section \<open>The git routes\<close>

datatype verb = GET | POST | PUT | DELETE

text \<open>
  The request: verb, path below the mount point \<^verbatim>\<open>/api/git\<close>, the properties of
  \<^verbatim>\<open>req.query\<close> and \<^verbatim>\<open>req.body\<close> that the modelled handlers read (\<open>None\<close> is
  \<^verbatim>\<open>undefined\<close>), and the properties \<^verbatim>\<open>req.repo\<close> and \<^verbatim>\<open>req.git\<close> that the middleware
  attaches.
\<close>

record 'w request =
  req_method :: verb
  req_path :: string
  query_repoId :: "string option"
  body_repoId :: "string option"
  body_files :: "string list option"
  body_message :: "string option"
  body_commit :: "string option"
  body_mode :: "string option"
  req_repo :: "repo option"
  req_git :: "'w simple_git option"

text \<open>The answer: HTTP status and the JSON body \<^verbatim>\<open>{success, error?, result?}\<close>.\<close>

record response =
  res_status :: nat
  res_success :: bool
  res_error :: "string option"
  res_result :: "commit_return option"

definition failure :: "nat \<Rightarrow> string \<Rightarrow> response" where
  "failure code msg =
     \<lparr>res_status = code, res_success = False, res_error = Some msg, res_result = None\<rparr>"

definition ok :: response where
  "ok = \<lparr>res_status = 200, res_success = True, res_error = None, res_result = None\<rparr>"

text \<open>The process: the registry singleton and the working copies on disk.\<close>

record 'w server =
  repoService :: repo_service
  worktree :: 'w

text \<open>
  \<^verbatim>\<open>simpleGit(repoPath, ...)\<close> builds the handle for a directory, or throws when the
  directory cannot be used.
\<close>

record 'w server_env =
  srv_fs :: fs_env
  simpleGit :: "string \<Rightarrow> string + 'w simple_git"

text \<open>A handler either answers or calls \<^verbatim>\<open>next()\<close>.\<close>

datatype 'w step = Next "'w request" | Respond response

type_synonym 'w handler = "'w request \<Rightarrow> 'w server \<Rightarrow> 'w step \<times> 'w server"

definition on_worktree :: "('w, 'a) async \<Rightarrow> 'w server \<Rightarrow> (string + 'a) \<times> 'w server" where
  "on_worktree m srv = (case m (worktree srv) of (r, w') \<Rightarrow> (r, srv\<lparr>worktree := w'\<rparr>))"

text \<open>\<^verbatim>\<open>a || b\<close> on optional strings.\<close>

definition opt_or :: "string option \<Rightarrow> string option \<Rightarrow> string option" where
  "opt_or a b = (if truthy a then a else b)"

definition getRepoMiddleware :: "'w server_env \<Rightarrow> 'w handler" where
  "getRepoMiddleware env req srv =
     (let repoId = opt_or (query_repoId req) (body_repoId req)
      in if \<not> truthy repoId then (Respond (failure 400 ''repoId is required''), srv)
         else
           (case getById (srv_fs env) (the repoId) (repoService srv) of
              (Inl e, st) \<Rightarrow> (Respond (failure 500 e), srv\<lparr>repoService := st\<rparr>)
            | (Inr None, st) \<Rightarrow>
                (Respond (failure 404 ''Repository not found''), srv\<lparr>repoService := st\<rparr>)
            | (Inr (Some r), st) \<Rightarrow>
                (case simpleGit env (repo_path r) of
                   Inl e \<Rightarrow> (Respond (failure 500 e), srv\<lparr>repoService := st\<rparr>)
                 | Inr git \<Rightarrow>
                     (Next (req\<lparr>req_repo := Some r, req_git := Some git\<rparr>),
                      srv\<lparr>repoService := st\<rparr>))))"

text \<open>The \<^verbatim>\<open>TypeError\<close> of a method call on \<^verbatim>\<open>req.git\<close> when it is \<^verbatim>\<open>undefined\<close>.\<close>

definition undefined_git :: string where
  "undefined_git = ''Cannot read properties of undefined''"

text \<open>\<^verbatim>\<open>router.post('/reset', ...)\<close>, the first one: unstage files.\<close>

definition post_reset_unstage :: "'w handler" where
  "post_reset_unstage req srv =
     (case req_git req of
        None \<Rightarrow> (Respond (failure 500 undefined_git), srv)
      | Some git \<Rightarrow>
         (case on_worktree (reset git (body_files req)) srv of
            (Inl e, srv') \<Rightarrow> (Respond (failure 500 e), srv')
          | (Inr _, srv') \<Rightarrow> (Respond ok, srv')))"

text \<open>\<^verbatim>\<open>router.post('/commit', ...)\<close>\<close>

definition post_commit :: "'w handler" where
  "post_commit req srv =
     (if \<not> truthy (body_message req)
      then (Respond (failure 400 ''Commit message is required''), srv)
      else
        (case req_git req of
           None \<Rightarrow> (Respond (failure 500 undefined_git), srv)
         | Some git \<Rightarrow>
            (case on_worktree (commit git (the (body_message req))) srv of
               (Inl e, srv') \<Rightarrow> (Respond (failure 500 e), srv')
             | (Inr result, srv') \<Rightarrow> (Respond (ok\<lparr>res_result := Some result\<rparr>), srv'))))"

text \<open>\<^verbatim>\<open>router.post('/reset', ...)\<close>, the second one: reset to a commit.\<close>

definition post_reset_to_commit :: "'w handler" where
  "post_reset_to_commit req srv =
     (if \<not> truthy (body_commit req)
      then (Respond (failure 400 ''Commit is required''), srv)
      else
        (case req_git req of
           None \<Rightarrow> (Respond (failure 500 undefined_git), srv)
         | Some git \<Rightarrow>
            (case on_worktree
                    (resetTo git (the (body_commit req)) (opt_or (body_mode req) (Some ''mixed'')))
                    srv of
               (Inl e, srv') \<Rightarrow> (Respond (failure 500 e), srv')
             | (Inr _, srv') \<Rightarrow> (Respond ok, srv'))))"

text \<open>
  The handlers of one route run in order; a handler that answers ends the request, one
  that calls \<^verbatim>\<open>next()\<close> passes the request on.
\<close>

fun run_chain :: "'w handler list \<Rightarrow> 'w handler" where
  "run_chain [] req srv = (Next req, srv)"
| "run_chain (h # hs) req srv =
     (case h req srv of
        (Respond r, srv') \<Rightarrow> (Respond r, srv')
      | (Next req', srv') \<Rightarrow> run_chain hs req' srv')"

text \<open>
  The router tries its routes in the order of their registration; a route whose verb and
  path match runs its handlers, and the routes after it are tried only when all of them
  called \<^verbatim>\<open>next()\<close>. \<open>None\<close>: no route of this router answered.
\<close>

fun dispatch ::
  "(verb \<times> string \<times> 'w handler list) list \<Rightarrow> 'w request \<Rightarrow> 'w server \<Rightarrow> response option \<times> 'w server" where
  "dispatch [] req srv = (None, srv)"
| "dispatch ((v, p, hs) # routes) req srv =
     (if req_method req = v \<and> req_path req = p
      then (case run_chain hs req srv of
              (Respond r, srv') \<Rightarrow> (Some r, srv')
            | (Next req', srv') \<Rightarrow> dispatch routes req' srv')
      else dispatch routes req srv)"

text \<open>
  The routes of the git router (mounted at \<^verbatim>\<open>/api/git\<close>) on the paths \<^verbatim>\<open>/reset\<close> and \<^verbatim>\<open>/commit\<close>, in the order
  of their registration. The other routes of the file are registered on other paths.
\<close>

definition gitRoutes :: "'w server_env \<Rightarrow> (verb \<times> string \<times> 'w handler list) list" where
  "gitRoutes env =
     [(POST, ''/reset'', [getRepoMiddleware env, post_reset_unstage]),
      (POST, ''/commit'', [getRepoMiddleware env, post_commit]),
      (POST, ''/reset'', [getRepoMiddleware env, post_reset_to_commit])]"

section \<open>A scripted tool for the closed examples\<close>

text \<open>
  A small working copy and a handle acting on it, used as the concrete input of the
  examples below: local branches, the checked-out branch, the remote-tracking refs, the
  branches of the remote \<open>origin\<close>, the history, and a journal of the \<open>reset\<close> and
  \<open>commit\<close> commands that were run.
\<close>

record fx_world =
  fx_local :: "string list"
  fx_current :: string
  fx_tracking :: "string list"
  fx_upstream :: "string list"
  fx_history :: "raw_commit list"
  fx_journal :: "string list list"

definition fx_merge :: "string list \<Rightarrow> (fx_world, string) async" where
  "fx_merge args w =
     (case args of
        [] \<Rightarrow> (Inl ''fatal: no branch given'', w)
      | b # _ \<Rightarrow>
          if b = ''feature'' then (Inl ''CONFLICT (content): Merge conflict in a.txt'', w)
          else if b \<in> set (fx_local w) then (Inr ''Already up to date.'', w)
          else (Inl ''merge: not something we can merge'', w))"

definition fx_git :: "fx_world simple_git" where
  "fx_git =
     \<lparr>sg_fetch = (\<lambda>args w.
        if args = [''origin'', ''--prune'']
        then (Inr (), w\<lparr>fx_tracking := map (\<lambda>b. ''origin/'' @ b) (fx_upstream w)\<rparr>)
        else (Inl ''fatal: does not appear to be a git repository'', w)),
      sg_branchLocal = (\<lambda>w. (Inr \<lparr>bs_all = fx_local w, bs_current = fx_current w\<rparr>, w)),
      sg_branch = (\<lambda>args w. (Inr \<lparr>bs_all = fx_tracking w, bs_current = []\<rparr>, w)),
      sg_deleteLocalBranch = (\<lambda>name force w.
        if name \<in> set (fx_local w) \<and> name \<noteq> fx_current w
        then (Inr (), w\<lparr>fx_local := removeAll name (fx_local w)\<rparr>)
        else (Inl ''error: branch not found.'', w)),
      sg_log = (\<lambda>n w.
        if fx_history w = [] then (Inl ''fatal: your current branch has no commits yet'', w)
        else (Inr \<lparr>lr_all = take (nat n) (fx_history w),
                   lr_total = length (take (nat n) (fx_history w))\<rparr>, w)),
      sg_diff = (\<lambda>args w. (Inr (concat args), w)),
      sg_merge = fx_merge,
      sg_rebase = fx_merge,
      sg_reset = (\<lambda>args w. (Inr (), w\<lparr>fx_journal := fx_journal w @ [''reset'' # args]\<rparr>)),
      sg_commit = (\<lambda>message w.
        (Inr \<lparr>cr_commit = ''abc1234'', cr_branch = fx_current w, cr_summary = ''1 file changed''\<rparr>,
         w\<lparr>fx_journal := fx_journal w @ [[''commit'', message]]\<rparr>))\<rparr>"

definition fx_w0 :: fx_world where
  "fx_w0 =
     \<lparr>fx_local = [''main'', ''Develop'', ''work'', ''feature'', ''old-fix'', ''topic''],
      fx_current = ''work'',
      fx_tracking = [''origin/main'', ''origin/feature'', ''origin/old-fix'', ''fork/topic''],
      fx_upstream = [''main'', ''feature''],
      fx_history = [],
      fx_journal = []\<rparr>"

definition fx_repo_a :: repo where
  "fx_repo_a =
     \<lparr>repo_id = ''1'', repo_path = ''/srv/a'', repo_name = ''a'',
      repo_addedAt = ''2024-01-01T00:00:00.000Z'', repo_cloneUrl = None\<rparr>"

definition fx_repo_b :: repo where
  "fx_repo_b =
     \<lparr>repo_id = ''2'', repo_path = ''/srv/b'', repo_name = ''b'',
      repo_addedAt = ''2024-01-02T00:00:00.000Z'', repo_cloneUrl = None\<rparr>"

text \<open>
  The directories \<open>/srv/a\<close>, \<open>/srv/b\<close> and \<open>/srv/c\<close> are working copies,
  \<open>/srv/plain\<close> is a directory that is none; writes succeed.
\<close>

definition fx_fs :: fs_env where
  "fx_fs =
     \<lparr>ensureDir_error = None, writeJson_error = None,
      dir_exists = (\<lambda>p. p = ''/srv/a'' \<or> p = ''/srv/b'' \<or> p = ''/srv/c'' \<or> p = ''/srv/plain''),
      revparse_error = (\<lambda>p. if p = ''/srv/plain'' then Some ''fatal: not a git repository''
                            else None),
      clone_error = (\<lambda>url target. None)\<rparr>"

definition fx_service :: repo_service where
  "fx_service =
     \<lparr>repos = [fx_repo_a, fx_repo_b], initialized = True,
      store = Doc (Some [fx_repo_a, fx_repo_b])\<rparr>"

definition fx_env :: "fx_world server_env" where
  "fx_env = \<lparr>srv_fs = fx_fs, simpleGit = (\<lambda>p. Inr fx_git)\<rparr>"

definition fx_server :: "fx_world server" where
  "fx_server = \<lparr>repoService = fx_service, worktree = fx_w0\<rparr>"

text \<open>A \<^verbatim>\<open>POST\<close> request for repository \<open>1\<close> with an otherwise empty body.\<close>

definition fx_post :: "string \<Rightarrow> fx_world request" where
  "fx_post p =
     \<lparr>req_method = POST, req_path = p, query_repoId = None, body_repoId = Some ''1'',
      body_files = None, body_message = None, body_commit = None, body_mode = None,
      req_repo = None, req_git = None\<rparr>"

section \<open>Properties of the string operations\<close>

lemma startsWith_prefix: "startsWith s p \<longleftrightarrow> prefix p s"
  by (induction s p rule: startsWith.induct) auto

lemma str_includes_sublist: "str_includes s sub \<longleftrightarrow> sublist sub s"
  by (induction s) (auto simp: startsWith_prefix sublist_Cons_right)

lemma str_includes_iff: "str_includes s sub \<longleftrightarrow> (\<exists>ps ss. s = ps @ sub @ ss)"
  by (simp add: str_includes_sublist sublist_def)

section \<open>The scripted tool\<close>

lemma fx_merge_feature: "fx_merge (''feature'' # args) fx_w0 = (Inl ''CONFLICT (content): Merge conflict in a.txt'', fx_w0)"
  by (simp add: fx_merge_def)

lemma fx_merge_nope: "fx_merge (''nope'' # args) fx_w0 = (Inl ''merge: not something we can merge'', fx_w0)"
  by (simp add: fx_merge_def fx_w0_def)

lemma fx_merge_main: "fx_merge (''main'' # args) fx_w0 = (Inr ''Already up to date.'', fx_w0)"
  by (simp add: fx_merge_def fx_w0_def)

lemma fx_git_merge: "sg_merge fx_git = fx_merge" "sg_rebase fx_git = fx_merge"
  by (simp_all add: fx_git_def)

section \<open>merge and rebase: conflict as a value\<close>

text \<open>
  C1. When the tool's \<^verbatim>\<open>merge\<close> (or \<^verbatim>\<open>rebase\<close>) call rejects and its failure text contains
  the marker \<open>CONFLICT\<close>, the method resolves with
  \<^verbatim>\<open>{success: false, conflict: true, message}\<close>; when the text does not contain the marker
  the method rejects with that same failure; when the call resolves, the method resolves
  with \<^verbatim>\<open>{success: true, result}\<close>. In every case the working copy is the one the tool
  left.
\<close>

theorem merge_rebase_conflict_contract:
  "(sg_merge git (branch # mergeOptions opts) w = (Inl msg, w') \<longrightarrow>
      merge git branch opts w =
        (if \<exists>ps ss. msg = ps @ ''CONFLICT'' @ ss
         then Inr \<lparr>mr_success = False, mr_conflict = Some True, mr_message = Some msg,
                   mr_result = None\<rparr>
         else Inl msg, w'))
   \<and> (sg_merge git (branch # mergeOptions opts) w = (Inr r, w') \<longrightarrow>
      merge git branch opts w =
        (Inr \<lparr>mr_success = True, mr_conflict = None, mr_message = None, mr_result = Some r\<rparr>, w'))
   \<and> (sg_rebase git [branch] w = (Inl msg, w') \<longrightarrow>
      rebase git branch w =
        (if \<exists>ps ss. msg = ps @ ''CONFLICT'' @ ss
         then Inr \<lparr>mr_success = False, mr_conflict = Some True, mr_message = Some msg,
                   mr_result = None\<rparr>
         else Inl msg, w'))
   \<and> (sg_rebase git [branch] w = (Inr r, w') \<longrightarrow>
      rebase git branch w =
        (Inr \<lparr>mr_success = True, mr_conflict = None, mr_message = None, mr_result = Some r\<rparr>, w'))"
  by (simp add: merge_def rebase_def try_catch_def await_def resolve_def throw_def
      str_includes_iff)

theorem merge_rebase_conflict_contract_witness:
  "merge fx_git ''feature'' \<lparr>noFF = True, squash = False\<rparr> fx_w0 =
     (Inr \<lparr>mr_success = False, mr_conflict = Some True,
            mr_message = Some ''CONFLICT (content): Merge conflict in a.txt'',
            mr_result = None\<rparr>, fx_w0)
   \<and> merge fx_git ''nope'' \<lparr>noFF = False, squash = False\<rparr> fx_w0 =
     (Inl ''merge: not something we can merge'', fx_w0)
   \<and> merge fx_git ''main'' \<lparr>noFF = False, squash = True\<rparr> fx_w0 =
     (Inr \<lparr>mr_success = True, mr_conflict = None, mr_message = None,
            mr_result = Some ''Already up to date.''\<rparr>, fx_w0)
   \<and> rebase fx_git ''feature'' fx_w0 =
     (Inr \<lparr>mr_success = False, mr_conflict = Some True,
            mr_message = Some ''CONFLICT (content): Merge conflict in a.txt'',
            mr_result = None\<rparr>, fx_w0)
   \<and> rebase fx_git ''main'' fx_w0 =
     (Inr \<lparr>mr_success = True, mr_conflict = None, mr_message = None,
            mr_result = Some ''Already up to date.''\<rparr>, fx_w0)"
proof -
  have c: "\<exists>ps ss. ''CONFLICT (content): Merge conflict in a.txt'' = ps @ ''CONFLICT'' @ ss"
    unfolding str_includes_iff [symmetric] by simp
  have n: "\<not> (\<exists>ps ss. ''merge: not something we can merge'' = ps @ ''CONFLICT'' @ ss)"
    unfolding str_includes_iff [symmetric] by simp
  show ?thesis
    using c n
      merge_rebase_conflict_contract [of fx_git "''feature''" "\<lparr>noFF = True, squash = False\<rparr>" fx_w0
        "''CONFLICT (content): Merge conflict in a.txt''" fx_w0 "''Already up to date.''"]
      merge_rebase_conflict_contract [of fx_git "''nope''" "\<lparr>noFF = False, squash = False\<rparr>" fx_w0
        "''merge: not something we can merge''" fx_w0 "''Already up to date.''"]
      merge_rebase_conflict_contract [of fx_git "''main''" "\<lparr>noFF = False, squash = True\<rparr>" fx_w0
        "''merge: not something we can merge''" fx_w0 "''Already up to date.''"]
    by (simp add: fx_git_merge fx_merge_feature fx_merge_nope fx_merge_main)
qed

section \<open>getStaleBranches\<close>

lemma str_replace_prefix: "startsWith s p \<Longrightarrow> str_replace s p [] = drop (length p) s"
  by (cases s) auto

lemma mem_remoteBranchNames:
  "b \<in> remoteBranchNames remote names \<longleftrightarrow> remote @ ''/'' @ b \<in> set names"
proof
  assume "b \<in> remoteBranchNames remote names"
  then obtain n where n: "n \<in> set names" "startsWith n (remote @ ''/'')"
    and b: "b = str_replace n (remote @ ''/'') []"
    by (auto simp: remoteBranchNames_def)
  from n(2) obtain rest where "n = (remote @ ''/'') @ rest"
    by (auto simp: startsWith_prefix prefix_def)
  moreover from b n(2) have "b = drop (length (remote @ ''/'')) n"
    by (simp only: str_replace_prefix)
  ultimately have "n = remote @ ''/'' @ b" by simp
  with n(1) show "remote @ ''/'' @ b \<in> set names" by simp
next
  assume a: "remote @ ''/'' @ b \<in> set names"
  have s: "startsWith (remote @ ''/'' @ b) (remote @ ''/'')"
    by (simp add: startsWith_prefix)
  then have "str_replace (remote @ ''/'' @ b) (remote @ ''/'') [] = b"
    by (simp add: str_replace_prefix)
  with a s show "b \<in> remoteBranchNames remote names"
    unfolding remoteBranchNames_def by force
qed

lemma stale_loop_filter:
  "stale_loop current rn bs acc =
     acc @ map (\<lambda>b. \<lparr>sb_name = b, sb_remoteExists = False\<rparr>)
             (filter (\<lambda>b. b \<noteq> current \<and> toLowerCase b \<notin> set protectedBranches \<and> b \<notin> rn) bs)"
  by (induction bs arbitrary: acc) auto

text \<open>
  C2. \<^verbatim>\<open>getStaleBranches(remote)\<close> first runs \<^verbatim>\<open>fetch\<close> with \<^verbatim>\<open>--prune\<close>; when that fails
  the failure is passed on and nothing else is asked of the tool. Otherwise the branch
  lists are read from the working copy as the fetch left it, and the method returns, in
  the order of the local list, exactly the local branches that are not the current branch,
  whose lower-cased name is none of \<open>main\<close>, \<open>master\<close>, \<open>develop\<close>, \<open>dev\<close>, and for which
  the remote-tracking list has no entry \<^verbatim>\<open>remote/name\<close>, together with the current branch
  name.
\<close>

theorem getStaleBranches_after_fetch_prune:
  "(sg_fetch git [remote, ''--prune''] w = (Inl e, w1) \<longrightarrow>
      getStaleBranches git remote w = (Inl e, w1))
   \<and> (sg_fetch git [remote, ''--prune''] w = (Inr u, w1)
        \<and> sg_branchLocal git w1 = (Inr localBranches, w2)
        \<and> sg_branch git [''-r''] w2 = (Inr remoteBranches, w3) \<longrightarrow>
      getStaleBranches git remote w =
        (Inr \<lparr>staleBranches =
                 map (\<lambda>b. \<lparr>sb_name = b, sb_remoteExists = False\<rparr>)
                   (filter (\<lambda>b. b \<noteq> bs_current localBranches
                              \<and> toLowerCase b \<notin> {''main'', ''master'', ''develop'', ''dev''}
                              \<and> remote @ ''/'' @ b \<notin> set (bs_all remoteBranches))
                      (bs_all localBranches)),
               currentBranch = bs_current localBranches\<rparr>, w3))"
  by (simp add: getStaleBranches_def await_def resolve_def stale_loop_filter
      mem_remoteBranchNames protectedBranches_def)

theorem getStaleBranches_after_fetch_prune_witness:
  "getStaleBranches fx_git ''origin'' fx_w0 =
     (Inr \<lparr>staleBranches = [\<lparr>sb_name = ''old-fix'', sb_remoteExists = False\<rparr>,
                             \<lparr>sb_name = ''topic'', sb_remoteExists = False\<rparr>],
            currentBranch = ''work''\<rparr>,
      fx_w0\<lparr>fx_tracking := [''origin/main'', ''origin/feature'']\<rparr>)
   \<and> getStaleBranches fx_git ''upstream'' fx_w0 =
       (Inl ''fatal: does not appear to be a git repository'', fx_w0)"
  using
    getStaleBranches_after_fetch_prune [of fx_git "''origin''" fx_w0 "[]"
      "fx_w0\<lparr>fx_tracking := [''origin/main'', ''origin/feature'']\<rparr>" "()"
      "\<lparr>bs_all = fx_local fx_w0, bs_current = ''work''\<rparr>"
      "fx_w0\<lparr>fx_tracking := [''origin/main'', ''origin/feature'']\<rparr>"
      "\<lparr>bs_all = [''origin/main'', ''origin/feature''], bs_current = []\<rparr>"
      "fx_w0\<lparr>fx_tracking := [''origin/main'', ''origin/feature'']\<rparr>"]
    getStaleBranches_after_fetch_prune [of fx_git "''upstream''" fx_w0
      "''fatal: does not appear to be a git repository''" fx_w0]
  by (simp add: fx_git_def fx_w0_def toLowerCase_def lower_char_def upper_latin1_def lower_latin1_def)


section \<open>deleteBranches\<close>

lemma deleteBranches_loop_acc:
  "deleteBranches_loop git force names (acc0 @ acc) w =
     (case deleteBranches_loop git force names acc w of (rs, w') \<Rightarrow> (acc0 @ rs, w'))"
  by (induction names arbitrary: acc w) (auto split: prod.splits sum.splits)

lemma deleteBranches_loop_single:
  "deleteBranches_loop git force names [x] w =
     (case deleteBranches_loop git force names [] w of (rs, w') \<Rightarrow> (x # rs, w'))"
  using deleteBranches_loop_acc [of git force names "[x]" "[]" w] by simp

lemma deleteBranches_loop_Cons:
  "deleteBranches_loop git force (name # rest) [] w =
     (case sg_deleteLocalBranch git name force w of
        (outcome, w') \<Rightarrow>
          (case deleteBranches_loop git force rest [] w' of
             (rs, w'') \<Rightarrow>
               ((case outcome of
                   Inr _ \<Rightarrow> \<lparr>dr_name = name, dr_success = True, dr_error = None\<rparr>
                 | Inl msg \<Rightarrow> \<lparr>dr_name = name, dr_success = False, dr_error = Some msg\<rparr>) # rs,
                w'')))"
  by (simp add: deleteBranches_loop_single split: prod.splits sum.splits)

lemma deleteBranches_loop_append:
  "deleteBranches_loop git force (xs @ ys) [] w =
     (case deleteBranches_loop git force xs [] w of
        (rs1, w1) \<Rightarrow>
          (case deleteBranches_loop git force ys [] w1 of (rs2, w2) \<Rightarrow> (rs1 @ rs2, w2)))"
proof (induction xs arbitrary: w)
  case Nil
  show ?case by simp
next
  case (Cons x xs)
  show ?case
    unfolding append_Cons deleteBranches_loop_Cons Cons.IH
    by (simp split: prod.splits)
qed

lemma deleteBranches_loop_names:
  "deleteBranches_loop git force names [] w = (rs, w') \<Longrightarrow> map dr_name rs = names"
proof (induction names arbitrary: w rs w')
  case Nil
  then show ?case by simp
next
  case (Cons n ns)
  from Cons.prems show ?case
    unfolding deleteBranches_loop_Cons
    by (auto split: prod.splits sum.splits dest: Cons.IH)
qed

text \<open>
  C4. \<^verbatim>\<open>deleteBranches\<close> always resolves, with one entry per input name in the order of
  the input. Whatever happened to the names before it, a name is handed to the tool in
  the working copy the earlier attempts left, its entry records whether that deletion
  succeeded (with the failure text when it did not), and the names after it are attempted
  in the working copy this attempt left. In particular three names yield three entries,
  each with the outcome of its own deletion.
\<close>

theorem deleteBranches_attempts_every_name:
  "(\<exists>results w'. deleteBranches git names force w = (Inr results, w')
       \<and> map dr_name results = names \<and> length results = length names)
   \<and> (deleteBranches git before force w = (Inr rs1, w1)
        \<and> sg_deleteLocalBranch git name force w1 = (outcome, w2)
        \<and> deleteBranches git after force w2 = (Inr rs2, w3) \<longrightarrow>
      deleteBranches git (before @ name # after) force w =
        (Inr (rs1
              @ [case outcome of
                   Inr _ \<Rightarrow> \<lparr>dr_name = name, dr_success = True, dr_error = None\<rparr>
                 | Inl msg \<Rightarrow> \<lparr>dr_name = name, dr_success = False, dr_error = Some msg\<rparr>]
              @ rs2), w3))
   \<and> (sg_deleteLocalBranch git n1 force w = (o1, v1)
        \<and> sg_deleteLocalBranch git n2 force v1 = (o2, v2)
        \<and> sg_deleteLocalBranch git n3 force v2 = (o3, v3) \<longrightarrow>
      deleteBranches git [n1, n2, n3] force w =
        (Inr [case o1 of
                Inr _ \<Rightarrow> \<lparr>dr_name = n1, dr_success = True, dr_error = None\<rparr>
              | Inl msg \<Rightarrow> \<lparr>dr_name = n1, dr_success = False, dr_error = Some msg\<rparr>,
              case o2 of
                Inr _ \<Rightarrow> \<lparr>dr_name = n2, dr_success = True, dr_error = None\<rparr>
              | Inl msg \<Rightarrow> \<lparr>dr_name = n2, dr_success = False, dr_error = Some msg\<rparr>,
              case o3 of
                Inr _ \<Rightarrow> \<lparr>dr_name = n3, dr_success = True, dr_error = None\<rparr>
              | Inl msg \<Rightarrow> \<lparr>dr_name = n3, dr_success = False, dr_error = Some msg\<rparr>], v3))"
proof (intro conjI)
  obtain rs w' where r: "deleteBranches_loop git force names [] w = (rs, w')"
    by (cases "deleteBranches_loop git force names [] w")
  from r have "map dr_name rs = names" by (rule deleteBranches_loop_names)
  moreover from this have "length rs = length names" by (metis length_map)
  ultimately show "\<exists>results w'. deleteBranches git names force w = (Inr results, w')
       \<and> map dr_name results = names \<and> length results = length names"
    using r by (simp add: deleteBranches_def)
next
  show "deleteBranches git before force w = (Inr rs1, w1)
        \<and> sg_deleteLocalBranch git name force w1 = (outcome, w2)
        \<and> deleteBranches git after force w2 = (Inr rs2, w3) \<longrightarrow>
      deleteBranches git (before @ name # after) force w =
        (Inr (rs1
              @ [case outcome of
                   Inr _ \<Rightarrow> \<lparr>dr_name = name, dr_success = True, dr_error = None\<rparr>
                 | Inl msg \<Rightarrow> \<lparr>dr_name = name, dr_success = False, dr_error = Some msg\<rparr>]
              @ rs2), w3)"
    unfolding deleteBranches_def deleteBranches_loop_append deleteBranches_loop_Cons
    by (auto split: prod.splits)
next
  show "sg_deleteLocalBranch git n1 force w = (o1, v1)
        \<and> sg_deleteLocalBranch git n2 force v1 = (o2, v2)
        \<and> sg_deleteLocalBranch git n3 force v2 = (o3, v3) \<longrightarrow>
      deleteBranches git [n1, n2, n3] force w =
        (Inr [case o1 of
                Inr _ \<Rightarrow> \<lparr>dr_name = n1, dr_success = True, dr_error = None\<rparr>
              | Inl msg \<Rightarrow> \<lparr>dr_name = n1, dr_success = False, dr_error = Some msg\<rparr>,
              case o2 of
                Inr _ \<Rightarrow> \<lparr>dr_name = n2, dr_success = True, dr_error = None\<rparr>
              | Inl msg \<Rightarrow> \<lparr>dr_name = n2, dr_success = False, dr_error = Some msg\<rparr>,
              case o3 of
                Inr _ \<Rightarrow> \<lparr>dr_name = n3, dr_success = True, dr_error = None\<rparr>
              | Inl msg \<Rightarrow> \<lparr>dr_name = n3, dr_success = False, dr_error = Some msg\<rparr>], v3)"
    unfolding deleteBranches_def deleteBranches_loop_Cons
    by simp
qed

theorem deleteBranches_attempts_every_name_witness:
  "deleteBranches fx_git [''topic'', ''nope'', ''old-fix''] False fx_w0 =
     (Inr [\<lparr>dr_name = ''topic'', dr_success = True, dr_error = None\<rparr>,
           \<lparr>dr_name = ''nope'', dr_success = False, dr_error = Some ''error: branch not found.''\<rparr>,
           \<lparr>dr_name = ''old-fix'', dr_success = True, dr_error = None\<rparr>],
      fx_w0\<lparr>fx_local := [''main'', ''Develop'', ''work'', ''feature'']\<rparr>)"
  using deleteBranches_attempts_every_name [of fx_git "[''topic'', ''nope'', ''old-fix'']" False fx_w0
      "[''topic'']" "[\<lparr>dr_name = ''topic'', dr_success = True, dr_error = None\<rparr>]"
      "fx_w0\<lparr>fx_local := [''main'', ''Develop'', ''work'', ''feature'', ''old-fix'']\<rparr>"
      "''nope''" "Inl ''error: branch not found.''"
      "fx_w0\<lparr>fx_local := [''main'', ''Develop'', ''work'', ''feature'', ''old-fix'']\<rparr>"
      "[''old-fix'']" "[\<lparr>dr_name = ''old-fix'', dr_success = True, dr_error = None\<rparr>]"
      "fx_w0\<lparr>fx_local := [''main'', ''Develop'', ''work'', ''feature'']\<rparr>"
      "''topic''" "Inr ()"
      "fx_w0\<lparr>fx_local := [''main'', ''Develop'', ''work'', ''feature'', ''old-fix'']\<rparr>"
      "''nope''" "Inl ''error: branch not found.''"
      "fx_w0\<lparr>fx_local := [''main'', ''Develop'', ''work'', ''feature'', ''old-fix'']\<rparr>"
      "''old-fix''" "Inr ()"
      "fx_w0\<lparr>fx_local := [''main'', ''Develop'', ''work'', ''feature'']\<rparr>"]
  by (simp add: deleteBranches_def fx_git_def fx_w0_def)

section \<open>getLog\<close>

text \<open>
  C6. \<^verbatim>\<open>getLog\<close> always resolves; when the tool's \<^verbatim>\<open>log\<close> call fails it resolves with
  \<^verbatim>\<open>{commits: [], total: 0}\<close>.
\<close>

theorem getLog_never_throws:
  "(\<exists>r w'. getLog git maxCount now w = (Inr r, w'))
   \<and> (sg_log git (maxCount_or_default maxCount) w = (Inl e, w') \<longrightarrow>
        getLog git maxCount now w = (Inr \<lparr>commits = [], total = 0\<rparr>, w'))"
  by (auto simp: getLog_def try_catch_def await_def resolve_def split: prod.splits sum.splits)

theorem getLog_never_throws_witness:
  "getLog fx_git None ''2024-05-01T10:00:00.000Z'' fx_w0 = (Inr \<lparr>commits = [], total = 0\<rparr>, fx_w0)"
  using getLog_never_throws [of fx_git None "''2024-05-01T10:00:00.000Z''" fx_w0
      "''fatal: your current branch has no commits yet''" fx_w0]
  by (simp add: fx_git_def fx_w0_def maxCount_or_default_def)

section \<open>getDiff\<close>

lemma await_resolve: "await m (\<lambda>v. resolve v) = m"
  by (rule ext) (simp add: await_def resolve_def split: prod.splits sum.splits)

text \<open>
  C3, as stated, fails: with the staged-only flag, a file and a commit pair all given, the
  tool is asked for the staged diff, not for the diff of the two commits.
\<close>

theorem getDiff_commit_pair_first_counterexample:
  "getDiff fx_git
     \<lparr>opt_cached = True, opt_file = Some ''a.txt'', opt_commit1 = Some ''HEAD~1'',
      opt_commit2 = Some ''HEAD''\<rparr> fx_w0 = sg_diff fx_git [''--cached''] fx_w0
   \<and> getDiff fx_git
     \<lparr>opt_cached = True, opt_file = Some ''a.txt'', opt_commit1 = Some ''HEAD~1'',
      opt_commit2 = Some ''HEAD''\<rparr> fx_w0 \<noteq> sg_diff fx_git [''HEAD~1'', ''HEAD''] fx_w0
   \<and> getDiff fx_git
     \<lparr>opt_cached = False, opt_file = Some ''a.txt'', opt_commit1 = Some ''HEAD~1'',
      opt_commit2 = Some ''HEAD''\<rparr> fx_w0 = sg_diff fx_git [''a.txt''] fx_w0
   \<and> getDiff fx_git
     \<lparr>opt_cached = False, opt_file = Some ''a.txt'', opt_commit1 = Some ''HEAD~1'',
      opt_commit2 = Some ''HEAD''\<rparr> fx_w0 \<noteq> sg_diff fx_git [''HEAD~1'', ''HEAD''] fx_w0"
  by (simp add: getDiff_def await_resolve diff_args_def fx_git_def)

text \<open>
  C3, amended. The staged-only flag takes precedence over a single file, which takes
  precedence over a commit pair, which takes precedence over the full working-tree diff
  used when no selector is given.
\<close>

theorem getDiff_precedence:
  "(opt_cached options \<longrightarrow> getDiff git options = sg_diff git [''--cached''])
   \<and> (\<not> opt_cached options \<and> opt_file options = Some f \<and> f \<noteq> [] \<longrightarrow>
        getDiff git options = sg_diff git [f])
   \<and> (\<not> opt_cached options \<and> \<not> truthy (opt_file options)
        \<and> opt_commit1 options = Some a \<and> a \<noteq> [] \<and> opt_commit2 options = Some b \<and> b \<noteq> [] \<longrightarrow>
        getDiff git options = sg_diff git [a, b])
   \<and> (\<not> opt_cached options \<and> \<not> truthy (opt_file options)
        \<and> \<not> (truthy (opt_commit1 options) \<and> truthy (opt_commit2 options)) \<longrightarrow>
        getDiff git options = sg_diff git [])"
  by (simp add: getDiff_def await_resolve diff_args_def)

theorem getDiff_precedence_witness:
  "getDiff fx_git
     \<lparr>opt_cached = True, opt_file = Some ''a.txt'', opt_commit1 = Some ''HEAD~1'',
      opt_commit2 = Some ''HEAD''\<rparr> = sg_diff fx_git [''--cached'']
   \<and> getDiff fx_git
     \<lparr>opt_cached = False, opt_file = Some ''a.txt'', opt_commit1 = Some ''HEAD~1'',
      opt_commit2 = Some ''HEAD''\<rparr> = sg_diff fx_git [''a.txt'']
   \<and> getDiff fx_git
     \<lparr>opt_cached = False, opt_file = None, opt_commit1 = Some ''HEAD~1'',
      opt_commit2 = Some ''HEAD''\<rparr> = sg_diff fx_git [''HEAD~1'', ''HEAD'']
   \<and> getDiff fx_git
     \<lparr>opt_cached = False, opt_file = Some [], opt_commit1 = Some ''HEAD~1'',
      opt_commit2 = None\<rparr> = sg_diff fx_git []"
  using
    getDiff_precedence [of "\<lparr>opt_cached = True, opt_file = Some ''a.txt'',
      opt_commit1 = Some ''HEAD~1'', opt_commit2 = Some ''HEAD''\<rparr>" fx_git "''a.txt''" "''HEAD~1''" "''HEAD''"]
    getDiff_precedence [of "\<lparr>opt_cached = False, opt_file = Some ''a.txt'',
      opt_commit1 = Some ''HEAD~1'', opt_commit2 = Some ''HEAD''\<rparr>" fx_git "''a.txt''" "''HEAD~1''" "''HEAD''"]
    getDiff_precedence [of "\<lparr>opt_cached = False, opt_file = None,
      opt_commit1 = Some ''HEAD~1'', opt_commit2 = Some ''HEAD''\<rparr>" fx_git "''a.txt''" "''HEAD~1''" "''HEAD''"]
    getDiff_precedence [of "\<lparr>opt_cached = False, opt_file = Some [],
      opt_commit1 = Some ''HEAD~1'', opt_commit2 = None\<rparr>" fx_git "''a.txt''" "''HEAD~1''" "''HEAD''"]
  by simp

section \<open>The git routes\<close>

lemma getRepoMiddleware_worktree:
  "getRepoMiddleware env req srv = (s, srv') \<Longrightarrow> worktree srv' = worktree srv"
  by (auto simp: getRepoMiddleware_def Let_def split: if_splits prod.splits sum.splits option.splits)

lemma getRepoMiddleware_Respond:
  "getRepoMiddleware env req srv = (Respond r, srv') \<Longrightarrow> \<not> res_success r"
  by (auto simp: getRepoMiddleware_def Let_def failure_def
      split: if_splits prod.splits sum.splits option.splits)

lemma getRepoMiddleware_Next:
  "getRepoMiddleware env req srv = (Next req', srv') \<Longrightarrow>
     \<exists>r git. req' = req\<lparr>req_repo := Some r, req_git := Some git\<rparr>
       \<and> simpleGit env (repo_path r) = Inr git"
  by (auto simp: getRepoMiddleware_def Let_def
      split: if_splits prod.splits sum.splits option.splits)

lemma dispatch_commit:
  "req_method req = POST \<Longrightarrow> req_path req = ''/commit'' \<Longrightarrow>
     dispatch (gitRoutes env) req srv =
       (case getRepoMiddleware env req srv of
          (Respond r, srv') \<Rightarrow> (Some r, srv')
        | (Next req', srv') \<Rightarrow>
            (case post_commit req' srv' of
               (Respond r, srv'') \<Rightarrow> (Some r, srv'')
             | (Next req'', srv'') \<Rightarrow>
                 dispatch [(POST, ''/reset'', [getRepoMiddleware env, post_reset_to_commit])] req'' srv''))"
  by (simp add: gitRoutes_def split: prod.splits step.splits)

text \<open>
  C5. A \<^verbatim>\<open>POST /commit\<close> request whose message is missing or empty is answered with a
  failure and the working copy is left as it was, whatever handle the middleware built;
  when the middleware has resolved the repository the answer is status 400 with
  \<open>Commit message is required\<close>. A request with a non-empty message, once the
  middleware has resolved the repository, is handed to the tool's \<^verbatim>\<open>commit\<close> with that
  message, and the answer reports what the tool did.
\<close>

theorem commit_requires_message:
  "(req_method req = POST \<and> req_path req = ''/commit'' \<and> \<not> truthy (body_message req) \<longrightarrow>
      (\<exists>r srv'. dispatch (gitRoutes env) req srv = (Some r, srv')
         \<and> \<not> res_success r \<and> worktree srv' = worktree srv
         \<and> (\<forall>req' srv1. getRepoMiddleware env req srv = (Next req', srv1) \<longrightarrow>
               r = failure 400 ''Commit message is required'' \<and> srv' = srv1)))
   \<and> (req_method req = POST \<and> req_path req = ''/commit'' \<and> body_message req = Some message
        \<and> message \<noteq> [] \<and> getRepoMiddleware env req srv = (Next req', srv1)
        \<and> req_git req' = Some git \<longrightarrow>
      dispatch (gitRoutes env) req srv =
        (case sg_commit git message (worktree srv1) of
           (Inl e, w') \<Rightarrow> (Some (failure 500 e), srv1\<lparr>worktree := w'\<rparr>)
         | (Inr result, w') \<Rightarrow>
             (Some (ok\<lparr>res_result :=
                        Some \<lparr>cm_success = True, cm_commit = cr_commit result,
                              cm_branch = cr_branch result, cm_summary = cr_summary result\<rparr>\<rparr>),
              srv1\<lparr>worktree := w'\<rparr>)))"
proof (intro conjI impI)
  assume a: "req_method req = POST \<and> req_path req = ''/commit'' \<and> \<not> truthy (body_message req)"
  obtain s srv1 where m: "getRepoMiddleware env req srv = (s, srv1)"
    by (cases "getRepoMiddleware env req srv")
  have w: "worktree srv1 = worktree srv"
    using m by (rule getRepoMiddleware_worktree)
  show "\<exists>r srv'. dispatch (gitRoutes env) req srv = (Some r, srv')
         \<and> \<not> res_success r \<and> worktree srv' = worktree srv
         \<and> (\<forall>req' srv1. getRepoMiddleware env req srv = (Next req', srv1) \<longrightarrow>
               r = failure 400 ''Commit message is required'' \<and> srv' = srv1)"
  proof (cases s)
    case (Respond r)
    with m have "\<not> res_success r" by (auto dest: getRepoMiddleware_Respond)
    with a m w Respond show ?thesis by (simp add: dispatch_commit)
  next
    case (Next req')
    with m obtain r git where "req' = req\<lparr>req_repo := Some r, req_git := Some git\<rparr>"
      by (auto dest: getRepoMiddleware_Next)
    then have "body_message req' = body_message req" by simp
    with a have "post_commit req' srv1 = (Respond (failure 400 ''Commit message is required''), srv1)"
      by (simp add: post_commit_def)
    with a m w Next show ?thesis by (simp add: dispatch_commit failure_def)
  qed
next
  assume a: "req_method req = POST \<and> req_path req = ''/commit'' \<and> body_message req = Some message
        \<and> message \<noteq> [] \<and> getRepoMiddleware env req srv = (Next req', srv1)
        \<and> req_git req' = Some git"
  then obtain r g where "req' = req\<lparr>req_repo := Some r, req_git := Some g\<rparr>"
    by (auto dest: getRepoMiddleware_Next)
  then have "body_message req' = body_message req" by simp
  with a show "dispatch (gitRoutes env) req srv =
        (case sg_commit git message (worktree srv1) of
           (Inl e, w') \<Rightarrow> (Some (failure 500 e), srv1\<lparr>worktree := w'\<rparr>)
         | (Inr result, w') \<Rightarrow>
             (Some (ok\<lparr>res_result :=
                        Some \<lparr>cm_success = True, cm_commit = cr_commit result,
                              cm_branch = cr_branch result, cm_summary = cr_summary result\<rparr>\<rparr>),
              srv1\<lparr>worktree := w'\<rparr>))"
    by (simp add: dispatch_commit post_commit_def on_worktree_def commit_def await_def resolve_def
        split: prod.splits sum.splits)
qed

lemma fx_middleware':
  "getRepoMiddleware fx_env ((fx_post p)\<lparr>body_message := m, body_commit := c, body_mode := d\<rparr>) fx_server =
     (Next ((fx_post p)\<lparr>body_message := m, body_commit := c, body_mode := d,
                        req_repo := Some fx_repo_a, req_git := Some fx_git\<rparr>), fx_server)"
  by (simp add: getRepoMiddleware_def fx_post_def opt_or_def getById_def init_def fx_server_def
      fx_service_def fx_env_def fx_repo_a_def fx_repo_b_def)

theorem commit_requires_message_witness:
  "dispatch (gitRoutes fx_env) ((fx_post ''/commit'')\<lparr>body_message := Some [], body_commit := None, body_mode := None\<rparr>) fx_server =
     (Some (failure 400 ''Commit message is required''), fx_server)
   \<and> dispatch (gitRoutes fx_env) ((fx_post ''/commit'')\<lparr>body_message := Some ''fix typo'', body_commit := None, body_mode := None\<rparr>) fx_server =
     (Some (ok\<lparr>res_result :=
               Some \<lparr>cm_success = True, cm_commit = ''abc1234'', cm_branch = ''work'',
                     cm_summary = ''1 file changed''\<rparr>\<rparr>),
      fx_server\<lparr>worktree := fx_w0\<lparr>fx_journal := [[''commit'', ''fix typo'']]\<rparr>\<rparr>)"
  using
    commit_requires_message [of "(fx_post ''/commit'')\<lparr>body_message := Some [], body_commit := None, body_mode := None\<rparr>"
      fx_env fx_server "''fix typo''"
      "(fx_post ''/commit'')\<lparr>body_message := Some [], body_commit := None, body_mode := None,
          req_repo := Some fx_repo_a, req_git := Some fx_git\<rparr>" fx_server fx_git]
    commit_requires_message [of "(fx_post ''/commit'')\<lparr>body_message := Some ''fix typo'', body_commit := None, body_mode := None\<rparr>"
      fx_env fx_server "''fix typo''"
      "(fx_post ''/commit'')\<lparr>body_message := Some ''fix typo'', body_commit := None, body_mode := None,
          req_repo := Some fx_repo_a, req_git := Some fx_git\<rparr>" fx_server fx_git]
  by (simp add: fx_middleware') (simp add: fx_post_def fx_git_def fx_server_def fx_w0_def)

section \<open>The two routes on POST /reset\<close>

lemma post_reset_unstage_responds:
  "\<exists>r srv'. post_reset_unstage req srv = (Respond r, srv')"
  by (auto simp: post_reset_unstage_def split: option.splits prod.splits sum.splits)

text \<open>
  Every \<^verbatim>\<open>POST /reset\<close> request is answered by the first route on that path: the router
  behaves as if the second one had not been registered.
\<close>

lemma reset_to_commit_unreachable:
  assumes "req_method req = POST" "req_path req = ''/reset''"
  shows "dispatch (gitRoutes env) req srv =
           dispatch [(POST, ''/reset'', [getRepoMiddleware env, post_reset_unstage])] req srv"
proof -
  obtain s srv1 where m: "getRepoMiddleware env req srv = (s, srv1)"
    by (cases "getRepoMiddleware env req srv")
  show ?thesis
  proof (cases s)
    case (Respond r)
    with m assms show ?thesis by (simp add: gitRoutes_def)
  next
    case (Next req')
    obtain r srv2 where "post_reset_unstage req' srv1 = (Respond r, srv2)"
      using post_reset_unstage_responds by blast
    with m Next assms show ?thesis by (simp add: gitRoutes_def)
  qed
qed

text \<open>
  \<^verbatim>\<open>resetTo\<close> called without a mode resets in soft mode. What the second handler does
  when it is run on its own: the mode is \<^verbatim>\<open>mode || 'mixed'\<close>, so it never calls
  \<^verbatim>\<open>resetTo\<close> without a mode, and a mode other than the three is answered with status 500.
\<close>

lemma resetTo_default_soft:
  "resetTo git c None = await (sg_reset git [''--soft'', c]) (\<lambda>_. resolve True)"
  by (simp add: resetTo_def modes_def)

lemma post_reset_to_commit_mode:
  assumes "body_commit req = Some c" "c \<noteq> []" "req_git req = Some git"
  shows "post_reset_to_commit req srv =
           (case modes (if truthy (body_mode req) then the (body_mode req) else ''mixed'') of
              None \<Rightarrow> (Respond (failure 500 not_iterable), srv)
            | Some flags \<Rightarrow>
                (case sg_reset git (flags @ [c]) (worktree srv) of
                   (Inl e, w') \<Rightarrow> (Respond (failure 500 e), srv\<lparr>worktree := w'\<rparr>)
                 | (Inr u, w') \<Rightarrow> (Respond ok, srv\<lparr>worktree := w'\<rparr>)))"
  using assms
  by (auto simp: post_reset_to_commit_def on_worktree_def resetTo_def opt_or_def throw_def
      await_def resolve_def split: option.splits prod.splits sum.splits)

text \<open>
  C9 fails on the code. A \<^verbatim>\<open>POST /reset\<close> request with a target commit and no mode, or
  with the mode \<open>hard\<close>, is answered by the unstage handler: the tool runs
  \<^verbatim>\<open>reset HEAD\<close> and the target commit and the mode are ignored. Run on its own, the
  reset-to-commit handler would have run \<^verbatim>\<open>reset --mixed abc1234\<close>.
\<close>

theorem reset_request_runs_unstage:
  "dispatch (gitRoutes fx_env)
     ((fx_post ''/reset'')\<lparr>body_message := None, body_commit := Some ''abc1234'', body_mode := None\<rparr>)
     fx_server =
     (Some ok, fx_server\<lparr>worktree := fx_w0\<lparr>fx_journal := [[''reset'', ''HEAD'']]\<rparr>\<rparr>)
   \<and> dispatch (gitRoutes fx_env)
     ((fx_post ''/reset'')\<lparr>body_message := None, body_commit := Some ''abc1234'',
                            body_mode := Some ''hard''\<rparr>)
     fx_server =
     (Some ok, fx_server\<lparr>worktree := fx_w0\<lparr>fx_journal := [[''reset'', ''HEAD'']]\<rparr>\<rparr>)
   \<and> run_chain [getRepoMiddleware fx_env, post_reset_to_commit]
     ((fx_post ''/reset'')\<lparr>body_message := None, body_commit := Some ''abc1234'', body_mode := None\<rparr>)
     fx_server =
     (Respond ok,
      fx_server\<lparr>worktree := fx_w0\<lparr>fx_journal := [[''reset'', ''--mixed'', ''abc1234'']]\<rparr>\<rparr>)"
  by (simp add: gitRoutes_def fx_middleware' post_reset_unstage_def post_reset_to_commit_def
      on_worktree_def reset_def resetTo_def opt_or_def modes_def await_def resolve_def)
     (simp add: fx_post_def fx_git_def fx_server_def fx_w0_def await_def resolve_def)

section \<open>The registry operations\<close>




lemma init_found_store:
  "List.find P (repos (init env st)) = Some r \<Longrightarrow> store (init env st) = store st"
  by (auto simp: init_def doInit_def save_def split: if_splits option.splits config_file.splits)

lemma find_assign_first:
  "List.find P xs = Some x \<Longrightarrow> P (f x) \<Longrightarrow> List.find P (assign_first P f xs) = Some (f x)"
  by (induction xs) (auto split: if_splits)

lemma length_assign_first: "length (assign_first P f xs) = length xs"
  by (induction xs) auto

lemma find_None_iff_paths:
  "List.find (\<lambda>r. repo_path r = p) rs = None \<longleftrightarrow> p \<notin> set (map repo_path rs)"
  by (auto simp: find_None_iff)

lemma distinct_remove_first: "distinct (map f xs) \<Longrightarrow> distinct (map f (remove_first P xs))"
proof (induction xs)
  case Nil
  show ?case by simp
next
  case (Cons x xs)
  have "set (remove_first P xs) \<subseteq> set xs"
    by (induction xs) auto
  with Cons show ?case by auto
qed

text \<open>
  \<^verbatim>\<open>add\<close> and \<^verbatim>\<open>remove\<close> keep the registered paths pairwise distinct, and \<^verbatim>\<open>add\<close> rejects a
  path that is already registered.
\<close>

lemma RepoService_add_paths_distinct:
  assumes "distinct (map repo_path (repos (init env st)))"
  shows "distinct (map repo_path (repos (snd (RepoService_add env path name new_id now st))))"
  using assms
  by (auto simp: RepoService_add_def Let_def await_def resolve_def save_def find_None_iff
      split: option.splits)

lemma RepoService_add_duplicate:
  assumes "isValidRepo env (trim path)" "trim path \<in> set (map repo_path (repos (init env st)))"
  shows "RepoService_add env path name new_id now st = (Inl ''Repository already added'', init env st)"
  using assms by (simp add: RepoService_add_def Let_def find_None_iff_paths)

lemma RepoService_remove_paths_distinct:
  assumes "distinct (map repo_path (repos (init env st)))"
  shows "distinct (map repo_path (repos (snd (RepoService_remove env ident st))))"
  using assms
  by (auto simp: RepoService_remove_def Let_def await_def resolve_def save_def
      distinct_remove_first split: option.splits)

text \<open>
  C7 fails on the code. \<^verbatim>\<open>update\<close> stores a path that another record already has, and
  \<^verbatim>\<open>clone\<close> registers a target path that is already registered: both succeed and leave
  two records with the path \<open>/srv/a\<close>.
\<close>

theorem update_and_clone_duplicate_path:
  "RepoService_update fx_fs ''2'' \<lparr>upd_name = None, upd_path = Some ''/srv/a''\<rparr> fx_service =
     (Inr (fx_repo_b\<lparr>repo_path := ''/srv/a''\<rparr>),
      \<lparr>repos = [fx_repo_a, fx_repo_b\<lparr>repo_path := ''/srv/a''\<rparr>], initialized = True,
       store = Doc (Some [fx_repo_a, fx_repo_b\<lparr>repo_path := ''/srv/a''\<rparr>])\<rparr>)
   \<and> map repo_path
        (repos (snd (RepoService_update fx_fs ''2'' \<lparr>upd_name = None, upd_path = Some ''/srv/a''\<rparr>
                       fx_service))) = [''/srv/a'', ''/srv/a'']
   \<and> map repo_path
        (repos (snd (RepoService_clone fx_fs ''https://example.org/r.git'' ''/srv/a'' None ''3''
                       ''2024-05-01T10:00:00.000Z'' fx_service))) = [''/srv/a'', ''/srv/b'', ''/srv/a'']"
  by (simp add: RepoService_update_def RepoService_clone_def init_def fx_service_def fx_fs_def
      fx_repo_a_def fx_repo_b_def isValidRepo_def validation_errors_def await_def resolve_def save_def Let_def)





text \<open>
  C10, as stated, fails. The empty path does not pass the validity check, yet
  \<^verbatim>\<open>update\<close> with a new name and the empty path skips the check, saves and resolves:
  the new name is persisted. An id that no record has makes the call fail with
  \<open>Repository not found\<close>. And with the empty name and a path that fails the check the
  call fails with \<open>Not a valid git repository\<close> and the record keeps its old name.
\<close>

theorem update_invalid_path_counterexample:
  "\<not> isValidRepo fx_fs []
   \<and> RepoService_update fx_fs ''2'' \<lparr>upd_name = Some ''renamed'', upd_path = Some []\<rparr> fx_service =
       (Inr (fx_repo_b\<lparr>repo_name := ''renamed''\<rparr>),
        \<lparr>repos = [fx_repo_a, fx_repo_b\<lparr>repo_name := ''renamed''\<rparr>], initialized = True,
         store = Doc (Some [fx_repo_a, fx_repo_b\<lparr>repo_name := ''renamed''\<rparr>])\<rparr>)
   \<and> \<not> isValidRepo fx_fs ''/nowhere''
   \<and> RepoService_update fx_fs ''9'' \<lparr>upd_name = Some ''renamed'', upd_path = Some ''/nowhere''\<rparr>
         fx_service = (Inl ''Repository not found'', fx_service)
   \<and> RepoService_update fx_fs ''2'' \<lparr>upd_name = Some [], upd_path = Some ''/nowhere''\<rparr>
         fx_service = (Inl ''Not a valid git repository'', fx_service)
   \<and> map repo_name (repos fx_service) = [''a'', ''b'']"
  by (simp add: RepoService_update_def init_def fx_service_def fx_fs_def fx_repo_a_def
      fx_repo_b_def isValidRepo_def validation_errors_def await_def resolve_def save_def Let_def)

text \<open>
  C10, amended. When \<^verbatim>\<open>update(id, {name, path})\<close> finds the record, the name is
  non-empty and the path is non-empty but does not pass the validity check, the call fails with
  \<open>Not a valid git repository\<close>, the durable store is what it was before the call, and
  the in-memory list differs from the one before the call exactly in that the record found
  now carries the new name: the assignment of the name is not undone.
\<close>

theorem update_invalid_path_keeps_new_name:
  assumes "List.find (\<lambda>r. repo_id r = ident) (repos (init env st)) = Some found"
    and "upd_name upd = Some n" and "n \<noteq> []"
    and "upd_path upd = Some p" and "p \<noteq> []"
    and "\<not> isValidRepo env p"
  shows "RepoService_update env ident upd st =
           (Inl ''Not a valid git repository'',
            (init env st)\<lparr>repos := assign_first (\<lambda>r. repo_id r = ident) (\<lambda>r. r\<lparr>repo_name := n\<rparr>)
                                      (repos (init env st))\<rparr>)
         \<and> store (snd (RepoService_update env ident upd st)) = store st
         \<and> List.find (\<lambda>r. repo_id r = ident) (repos (snd (RepoService_update env ident upd st)))
             = Some (found\<lparr>repo_name := n\<rparr>)"
proof -
  have u: "RepoService_update env ident upd st =
           (Inl ''Not a valid git repository'',
            (init env st)\<lparr>repos := assign_first (\<lambda>r. repo_id r = ident) (\<lambda>r. r\<lparr>repo_name := n\<rparr>)
                                      (repos (init env st))\<rparr>)"
    using assms by (simp add: RepoService_update_def Let_def)
  have i: "repo_id found = ident"
    using assms(1) by (auto simp: find_Some_iff)
  have s: "store (init env st) = store st"
    using assms(1) by (rule init_found_store)
  have f: "List.find (\<lambda>r. repo_id r = ident)
             (assign_first (\<lambda>r. repo_id r = ident) (\<lambda>r. r\<lparr>repo_name := n\<rparr>) (repos (init env st)))
           = Some (found\<lparr>repo_name := n\<rparr>)"
    using assms(1) i by (intro find_assign_first) simp_all
  show ?thesis using u s f by simp
qed

theorem update_invalid_path_keeps_new_name_witness:
  "RepoService_update fx_fs ''2'' \<lparr>upd_name = Some ''renamed'', upd_path = Some ''/nowhere''\<rparr>
     fx_service =
     (Inl ''Not a valid git repository'',
      fx_service\<lparr>repos := [fx_repo_a, fx_repo_b\<lparr>repo_name := ''renamed''\<rparr>]\<rparr>)
   \<and> store (snd (RepoService_update fx_fs ''2''
                    \<lparr>upd_name = Some ''renamed'', upd_path = Some ''/nowhere''\<rparr> fx_service))
       = Doc (Some [fx_repo_a, fx_repo_b])"
  using update_invalid_path_keeps_new_name [of "''2''" fx_fs fx_service fx_repo_b
      "\<lparr>upd_name = Some ''renamed'', upd_path = Some ''/nowhere''\<rparr>" "''renamed''" "''/nowhere''"]
  by (simp add: init_def isValidRepo_def validation_errors_def fx_fs_def)
     (simp add: fx_service_def fx_repo_a_def fx_repo_b_def)

end
